theory Spec2Isabelle
  imports Complex_Main
begin

section \<open>Wallet reputability scoring (reputability-score route)\<close>

text \<open>
  JavaScript numbers are modelled exactly: counters as \<open>nat\<close>, lamport amounts and
  millisecond clocks as \<open>int\<close>, ratios as \<open>rat\<close>.  \<open>Math.round\<close> rounds to the
  nearest integer with ties towards plus infinity.  The code computes the ratios and
  their products in IEEE doubles, whose rounding is not modelled: where the exact product
  is a tie or next to one, the code can round the other way (29 staking instructions in
  50 transactions give \<open>Math.round(14.499999999999998) = 14\<close> in the code and 15 here).
  The statements below about the scorer hold for either rounding.
\<close>

definition js_round :: "rat \<Rightarrow> int" where
  "js_round x = \<lfloor>x + 1 / 2\<rfloor>"

datatype factor_type = positive | negative | neutral

datatype risk = low | medium | high

text \<open>
  A factor's description is a template string; the interpolated values are kept as
  values: \<open>Fixed d x\<close> stands for \<open>x.toFixed(d)\<close>.
\<close>

datatype piece = Txt string | Num nat | Fixed nat rat

record analysis =
  flaggedInteractions :: nat
  blacklistedProgramUsage :: nat
  legitimateProgramUsage :: nat
  largeTransfers :: nat
  totalVolume :: int
  counterpartyCount :: nat
  counterpartyDiversity :: rat
  walletAgeMonths :: rat
  transactionCount :: nat
  recentTransactions :: nat
  transactionFrequency :: rat
  stakingTransactions :: nat
  stakingActivityRatio :: rat
  tokenCount :: nat
  hasStakedTokens :: bool
  programsUsed :: "string list"
  uniquePrograms :: nat

record factor =
  f_name :: string
  f_impact :: int
  f_description :: "piece list"
  f_type :: factor_type

definition flaggedPenalty :: "analysis \<Rightarrow> int" where
  "flaggedPenalty a = int (flaggedInteractions a) * 15"

definition blacklistedPenalty :: "analysis \<Rightarrow> int" where
  "blacklistedPenalty a = int (blacklistedProgramUsage a) * 20"

definition largeTransferPenalty :: "analysis \<Rightarrow> int" where
  "largeTransferPenalty a = min (int (largeTransfers a) * 3) 30"

definition diversityBonus :: "analysis \<Rightarrow> int" where
  "diversityBonus a = js_round (counterpartyDiversity a * 20)"

definition stakingBonus :: "analysis \<Rightarrow> int" where
  "stakingBonus a = js_round (stakingActivityRatio a * 25)"

definition ageBonus :: "analysis \<Rightarrow> int" where
  "ageBonus a = min (js_round (walletAgeMonths a * 2)) 24"

definition legitimateBonus :: "analysis \<Rightarrow> int" where
  "legitimateBonus a = min (int (legitimateProgramUsage a) * 2) 20"

definition activityBonus :: "analysis \<Rightarrow> int" where
  "activityBonus a = min (js_round (transactionFrequency a * 5)) 15"

definition raw_score :: "analysis \<Rightarrow> int" where
  "raw_score a =
     50 - flaggedPenalty a - blacklistedPenalty a - largeTransferPenalty a
        + diversityBonus a + stakingBonus a + ageBonus a + legitimateBonus a
        + activityBonus a"

definition score_factors :: "analysis \<Rightarrow> factor list" where
  "score_factors a =
    [\<lparr>f_name = ''Flagged Address Interactions'', f_impact = - flaggedPenalty a,
      f_description = [Num (flaggedInteractions a),
         Txt '' interactions with known scam/malicious addresses''],
      f_type = (if flaggedInteractions a > 0 then negative else positive)\<rparr>,
     \<lparr>f_name = ''Blacklisted Program Usage'', f_impact = - blacklistedPenalty a,
      f_description = [Num (blacklistedProgramUsage a),
         Txt '' interactions with blacklisted programs''],
      f_type = (if blacklistedProgramUsage a > 0 then negative else positive)\<rparr>,
     \<lparr>f_name = ''Large Transfer Activity'', f_impact = - largeTransferPenalty a,
      f_description = [Num (largeTransfers a), Txt '' large transfers (>10 SOL) detected''],
      f_type = (if largeTransfers a > 5 then negative else neutral)\<rparr>,
     \<lparr>f_name = ''Counterparty Diversity'', f_impact = diversityBonus a,
      f_description = [Num (counterpartyCount a), Txt '' unique counterparties ('',
         Fixed 1 (counterpartyDiversity a * 100), Txt ''% diversity)''],
      f_type = (if counterpartyDiversity a > 3 / 10 then positive else neutral)\<rparr>,
     \<lparr>f_name = ''Staking Activity'', f_impact = stakingBonus a,
      f_description = [Num (stakingTransactions a), Txt '' staking transactions ('',
         Fixed 1 (stakingActivityRatio a * 100), Txt ''% of activity)''],
      f_type = (if stakingActivityRatio a > 1 / 10 then positive else neutral)\<rparr>,
     \<lparr>f_name = ''Wallet Age'', f_impact = ageBonus a,
      f_description = [Fixed 1 (walletAgeMonths a), Txt '' months of on-chain history''],
      f_type = (if walletAgeMonths a > 3 then positive else neutral)\<rparr>,
     \<lparr>f_name = ''Legitimate Program Usage'', f_impact = legitimateBonus a,
      f_description = [Num (legitimateProgramUsage a),
         Txt '' interactions with verified DeFi protocols''],
      f_type = (if legitimateProgramUsage a > 0 then positive else neutral)\<rparr>,
     \<lparr>f_name = ''Transaction Activity'', f_impact = activityBonus a,
      f_description = [Fixed 2 (transactionFrequency a),
         Txt '' transactions per day (recent activity)''],
      f_type = (if transactionFrequency a > 1 / 10 \<and> transactionFrequency a < 10
                then positive else neutral)\<rparr>]"

text \<open>\<open>calculateReputabilityScore\<close> returns the normalised score and the factor list.\<close>

definition calculateReputabilityScore :: "analysis \<Rightarrow> int \<times> factor list" where
  "calculateReputabilityScore a =
     (max 0 (min 100 (js_round (of_int (raw_score a)))), score_factors a)"

text \<open>The risk level the \<open>POST\<close> handler derives from the score.\<close>

definition riskLevel_of :: "int \<Rightarrow> risk" where
  "riskLevel_of score = (if score \<ge> 80 then low else if score \<ge> 60 then medium else high)"

definition example_analysis :: analysis where
  "example_analysis =
    \<lparr>flaggedInteractions = 0, blacklistedProgramUsage = 0, legitimateProgramUsage = 4,
     largeTransfers = 5, totalVolume = 0, counterpartyCount = 0,
     counterpartyDiversity = 4 / 10, walletAgeMonths = 6, transactionCount = 0,
     recentTransactions = 0, transactionFrequency = 1 / 2, stakingTransactions = 0,
     stakingActivityRatio = 2 / 10, tokenCount = 0, hasStakedTokens = False,
     programsUsed = [], uniquePrograms = 0\<rparr>"

section \<open>Wallet analysis (reputability-score route)\<close>

text \<open>\<open>s.startsWith(p)\<close> and \<open>s.includes(p)\<close> on strings.\<close>

fun startsWith :: "string \<Rightarrow> string \<Rightarrow> bool" where
  "startsWith s [] = True"
| "startsWith [] (p # ps) = False"
| "startsWith (c # s) (p # ps) = (c = p \<and> startsWith s ps)"

fun str_includes :: "string \<Rightarrow> string \<Rightarrow> bool" where
  "str_includes [] p = (p = [])"
| "str_includes (c # s) p = (startsWith (c # s) p \<or> str_includes s p)"

definition SCAM_ADDRESSES :: "string list" where
  "SCAM_ADDRESSES =
    [''9hFtS2YFdEYjLzuM1jMjqTADVPT3R7RLLxd3nJyHzLh1'',
     ''8JzMwDj9N5LNUKRuCJz2PGwHwwMqZHNBVHLvFVGZnNcJ'',
     ''7YttLkHDoNj9wyDur5pM1ejNaAvUTZQEUzprmjpeyNX1'',
     ''ScamProgram111111111111111111111111111111111'',
     ''FakeToken22222222222222222222222222222222222'']"

definition BLACKLISTED_PROGRAMS :: "string list" where
  "BLACKLISTED_PROGRAMS =
    [''ScamProgram111111111111111111111111111111111'',
     ''FakeToken22222222222222222222222222222222222'',
     ''MaliciousDEX1111111111111111111111111111111'']"

definition LEGITIMATE_PROGRAMS :: "string list" where
  "LEGITIMATE_PROGRAMS =
    [''JUP6LkbZbjS1jKKwapdHNy74zcZ3tLUZoi5QNyVTaV4'',
     ''9WzDXwBbmkg8ZTbNMqUxvQRAyrZzDsGYdLVL9zYtAWWM'',
     ''MarBmsSgKXdrN1egZf5sqe1TMai9K1rChYNDJgjq7aD'',
     ''whirLbMiicVdio4qvUfM5KAg6Ct8VwpYzGff3uctyCc'']"

record transfer =
  fromUserAccount :: string
  toUserAccount :: string
  t_amount :: int

record token_transfer =
  tt_fromUserAccount :: string
  tt_toUserAccount :: string

record instruction =
  programId :: "string option"
  i_data :: "string option"

record helius_tx =
  timestamp :: int
  nativeTransfers :: "transfer list option"
  tokenTransfers :: "token_transfer list option"
  instructions :: "instruction list option"

text \<open>
  An entry of the token balance list with the part of it that is read,
  \<open>token.account?.data?.parsed?.info\<close>.  Entries are objects; a \<open>null\<close> entry, on
  which the property access throws, is outside this model.
\<close>

record token_info =
  ti_state :: "string option"
  ti_delegatedAmount :: "int option"

record token_balance =
  tb_info :: "token_info option"

text \<open>A JavaScript \<open>Set\<close> of strings, in insertion order.\<close>

definition set_add :: "string list \<Rightarrow> string \<Rightarrow> string list" where
  "set_add xs x = (if x \<in> set xs then xs else xs @ [x])"

text \<open>The local variables that \<open>analyzeWalletData\<close> updates while it walks the transactions.\<close>

record wallet_acc =
  acc_flagged :: nat
  acc_blacklisted :: nat
  acc_legitimate :: nat
  acc_large :: nat
  acc_volume :: int
  acc_counterparties :: "string list"
  acc_programs :: "string list"
  acc_staking :: nat
  acc_oldest :: int

definition native_step :: "string \<Rightarrow> transfer \<Rightarrow> wallet_acc \<Rightarrow> wallet_acc" where
  "native_step walletAddress t acc =
    (let acc1 = (if fromUserAccount t \<in> set SCAM_ADDRESSES \<or> toUserAccount t \<in> set SCAM_ADDRESSES
                 then acc\<lparr>acc_flagged := acc_flagged acc + 1\<rparr> else acc);
         acc2 = (if fromUserAccount t \<noteq> walletAddress
                 then acc1\<lparr>acc_counterparties := set_add (acc_counterparties acc1) (fromUserAccount t)\<rparr>
                 else acc1);
         acc3 = (if toUserAccount t \<noteq> walletAddress
                 then acc2\<lparr>acc_counterparties := set_add (acc_counterparties acc2) (toUserAccount t)\<rparr>
                 else acc2);
         acc4 = (if t_amount t > 10 * 1000000000
                 then acc3\<lparr>acc_large := acc_large acc3 + 1\<rparr> else acc3)
     in acc4\<lparr>acc_volume := acc_volume acc4 + t_amount t\<rparr>)"

definition token_step :: "string \<Rightarrow> token_transfer \<Rightarrow> wallet_acc \<Rightarrow> wallet_acc" where
  "token_step walletAddress t acc =
    (let acc1 = (if tt_fromUserAccount t \<noteq> walletAddress
                 then acc\<lparr>acc_counterparties := set_add (acc_counterparties acc) (tt_fromUserAccount t)\<rparr>
                 else acc)
     in (if tt_toUserAccount t \<noteq> walletAddress
         then acc1\<lparr>acc_counterparties := set_add (acc_counterparties acc1) (tt_toUserAccount t)\<rparr>
         else acc1))"

definition is_staking_instruction :: "string \<Rightarrow> string option \<Rightarrow> bool" where
  "is_staking_instruction pid d =
    (pid = ''Stake11111111111111111111111111111111111111''
     \<or> (case d of None \<Rightarrow> False | Some s \<Rightarrow> str_includes s ''stake'')
     \<or> (case d of None \<Rightarrow> False | Some s \<Rightarrow> str_includes s ''delegate''))"

definition instruction_step :: "instruction \<Rightarrow> wallet_acc \<Rightarrow> wallet_acc" where
  "instruction_step i acc =
    (case programId i of
       None \<Rightarrow> acc
     | Some pid \<Rightarrow>
        if pid = [] then acc
        else
          (let acc1 = acc\<lparr>acc_programs := set_add (acc_programs acc) pid\<rparr>;
               acc2 = (if pid \<in> set BLACKLISTED_PROGRAMS
                       then acc1\<lparr>acc_blacklisted := acc_blacklisted acc1 + 1\<rparr> else acc1);
               acc3 = (if pid \<in> set LEGITIMATE_PROGRAMS
                       then acc2\<lparr>acc_legitimate := acc_legitimate acc2 + 1\<rparr> else acc2)
           in (if is_staking_instruction pid (i_data i)
               then acc3\<lparr>acc_staking := acc_staking acc3 + 1\<rparr> else acc3)))"

definition tx_step :: "string \<Rightarrow> helius_tx \<Rightarrow> wallet_acc \<Rightarrow> wallet_acc" where
  "tx_step walletAddress tx acc =
    (let txTime = timestamp tx * 1000;
         acc1 = (if txTime < acc_oldest acc then acc\<lparr>acc_oldest := txTime\<rparr> else acc);
         acc2 = (case nativeTransfers tx of None \<Rightarrow> acc1
                 | Some ts \<Rightarrow> fold (native_step walletAddress) ts acc1);
         acc3 = (case tokenTransfers tx of None \<Rightarrow> acc2
                 | Some ts \<Rightarrow> fold (token_step walletAddress) ts acc2)
     in (case instructions tx of None \<Rightarrow> acc3
         | Some ins \<Rightarrow> fold instruction_step ins acc3))"

definition month_ms :: int where
  "month_ms = 30 * 24 * 60 * 60 * 1000"

definition token_is_staked :: "token_balance \<Rightarrow> bool" where
  "token_is_staked t =
    (case tb_info t of None \<Rightarrow> False
     | Some info \<Rightarrow> ti_state info = Some ''staked''
         \<or> (case ti_delegatedAmount info of None \<Rightarrow> False | Some d \<Rightarrow> d > 0))"

text \<open>
  \<open>analyzeWalletData\<close>; the last argument is the reading of \<open>Date.now()\<close> taken on
  entry (milliseconds).  The account info is passed in and never read.
\<close>

definition analyzeWalletData ::
  "helius_tx list \<Rightarrow> token_balance list \<Rightarrow> 'acct \<Rightarrow> string \<Rightarrow> int \<Rightarrow> analysis" where
  "analyzeWalletData transactions tokenBalances accountInfo walletAddress now =
    (let oneMonthAgo = now - month_ms;
         init = \<lparr>acc_flagged = 0, acc_blacklisted = 0, acc_legitimate = 0, acc_large = 0,
                 acc_volume = 0, acc_counterparties = [], acc_programs = [],
                 acc_staking = 0, acc_oldest = now\<rparr>;
         acc = fold (tx_step walletAddress) transactions init;
         n = length transactions;
         walletAgeMs = now - acc_oldest acc;
         recent = length (filter (\<lambda>tx. timestamp tx * 1000 > oneMonthAgo) transactions)
     in \<lparr>flaggedInteractions = acc_flagged acc,
         blacklistedProgramUsage = acc_blacklisted acc,
         legitimateProgramUsage = acc_legitimate acc,
         largeTransfers = acc_large acc,
         totalVolume = acc_volume acc,
         counterpartyCount = length (acc_counterparties acc),
         counterpartyDiversity =
           (if n > 0
            then min 1 (of_nat (length (acc_counterparties acc)) / max 1 (of_nat n * (1 / 2)))
            else 0),
         walletAgeMonths =
           (if n > 0 then max (1 / 10) (of_int walletAgeMs / of_int month_ms) else 1 / 10),
         transactionCount = n,
         recentTransactions = recent,
         transactionFrequency = of_nat recent / 30,
         stakingTransactions = acc_staking acc,
         stakingActivityRatio = (if n > 0 then of_nat (acc_staking acc) / of_nat n else 0),
         tokenCount = length tokenBalances,
         hasStakedTokens = list_ex token_is_staked tokenBalances,
         programsUsed = acc_programs acc,
         uniquePrograms = length (acc_programs acc)\<rparr>)"

definition generateRecommendations :: "analysis \<Rightarrow> int \<Rightarrow> string list" where
  "generateRecommendations a score =
    (let recommendations =
        (if flaggedInteractions a > 0
         then [''Avoid future interactions with flagged or suspicious addresses to improve reputation'']
         else [])
      @ (if blacklistedProgramUsage a > 0
         then [''Cease using blacklisted programs and stick to verified DeFi protocols'']
         else [])
      @ (if stakingActivityRatio a < 1 / 10
         then [''Consider staking SOL or tokens to demonstrate long-term commitment to the ecosystem'']
         else [])
      @ (if counterpartyDiversity a < 3 / 10
         then [''Diversify transaction counterparties to show legitimate usage patterns'']
         else [])
      @ (if legitimateProgramUsage a < 3
         then [''Increase usage of verified DeFi protocols like Jupiter, Raydium, or Marinade'']
         else [])
      @ (if walletAgeMonths a < 3
         then [''Continue building transaction history over time to establish credibility'']
         else [])
      @ (if largeTransfers a > 10
         then [''Reduce frequency of large transfers to avoid triggering risk algorithms'']
         else [])
     in if recommendations = []
        then [''Maintain current positive behavior patterns and continue regular DeFi participation'',
              ''Consider increasing staking activity to further improve reputation score'']
        else recommendations)"



section \<open>Fund-flow analysis (fund-flow-analysis route)\<close>

datatype direction = incoming | outgoing | both

datatype node_type = developer | fund_source | exchange | whale | contract | unknown

datatype link_type = funding | withdrawal | exchange_link | contract_interaction

datatype link_direction = to_developer | from_developer

text \<open>
  A node label: a string, \<open>Numbered s n\<close> for the string \<open>s\<close> followed by the
  number \<open>n\<close>, or the value that a lookup in an object literal finds for a key
  inherited from \<open>Object.prototype\<close> (a function or the prototype object, always truthy).
\<close>

datatype label = Label string | Numbered string nat | InheritedProperty string

definition object_prototype_keys :: "string list" where
  "object_prototype_keys =
    [''constructor'', ''__defineGetter__'', ''__defineSetter__'', ''hasOwnProperty'',
     ''__lookupGetter__'', ''__lookupSetter__'', ''isPrototypeOf'', ''propertyIsEnumerable'',
     ''toString'', ''valueOf'', ''__proto__'', ''toLocaleString'']"

text \<open>\<open>labels[address]\<close> for an object literal with the given entries.\<close>

definition lookup_label :: "(string \<times> string) list \<Rightarrow> string \<Rightarrow> label option" where
  "lookup_label labels address =
    (case map_of labels address of
       Some l \<Rightarrow> Some (Label l)
     | None \<Rightarrow> if address \<in> set object_prototype_keys
               then Some (InheritedProperty address) else None)"

record FundFlowNode =
  n_id :: string
  n_group :: nat
  n_value :: nat
  n_label :: label
  n_type :: node_type
  n_amount :: int
  n_transactionCount :: nat
  n_fundDirection :: direction
  n_riskLevel :: risk

record FundFlowLink =
  l_source :: string
  l_target :: string
  l_value :: nat
  l_amount :: int
  l_type :: link_type
  l_frequency :: nat
  l_direction :: link_direction

record FundFlowData =
  nodes :: "FundFlowNode list"
  links :: "FundFlowLink list"
  totalFundsReceived :: int
  totalFundsSent :: int
  fundingSources :: nat
  riskScore :: int
  suspiciousPatterns :: "string list"

subsection \<open>Upstream payloads\<close>

text \<open>
  A transaction as the RPC node returns it.  Account keys are given by their public key
  (the source accepts a plain string or an object with a \<open>pubkey\<close> field; keys of any
  other shape are outside this model); an absent array reads as the empty one
  (\<open>|| []\<close> in the source).
\<close>

record rpc_instruction =
  ri_programId :: "string option"
  ri_program :: "string option"

record rpc_tx =
  preBalances :: "int list"
  postBalances :: "int list"
  accountKeys :: "string list"
  tx_instructions :: "rpc_instruction list"

text \<open>An entry of the signature list; either field can be missing.\<close>

record rpc_sig =
  signature :: "string option"
  blockTime :: "int option"

text \<open>
  What \<open>getSignaturesForAddress\<close> hands back: the \<open>result\<close> field of the reply when it
  is truthy, and the empty array otherwise (also when the fetch fails).  A truthy JSON
  value is an array, a string, or a number, \<open>true\<close> or an object, which have no
  \<open>slice\<close> method.
\<close>

datatype sigs_payload = SigArray "rpc_sig list" | SigString string | NotSliceable

text \<open>
  \<open>getTransaction\<close> is asked with \<open>sig.signature\<close>, which is \<open>undefined\<close> (here
  \<open>None\<close>) when the entry has no such field.
\<close>

record upstream =
  getSignaturesForAddress :: "string \<Rightarrow> nat \<Rightarrow> sigs_payload"
  getTransaction :: "string option \<Rightarrow> rpc_tx option"

text \<open>
  The entries that \<open>signatures.slice(0, n)\<close> and the loop over it see, \<open>None\<close> when
  \<open>slice\<close> throws.  A string is sliced and iterated character by character, and a
  character has neither a \<open>signature\<close> nor a \<open>blockTime\<close>; its length is the number of
  characters.
\<close>

definition payload_items :: "sigs_payload \<Rightarrow> rpc_sig list option" where
  "payload_items p =
    (case p of
       SigArray xs \<Rightarrow> Some xs
     | SigString s \<Rightarrow> Some (map (\<lambda>c. \<lparr>signature = None, blockTime = None\<rparr>) s)
     | NotSliceable \<Rightarrow> None)"

datatype js_error = TypeError

subsection \<open>JavaScript helpers\<close>

text \<open>\<open>xs[i] || 0\<close> on an array of numbers.\<close>

definition balance_at :: "int list \<Rightarrow> nat \<Rightarrow> int" where
  "balance_at xs i = (if i < length xs then xs ! i else 0)"

text \<open>\<open>Array.prototype.findIndex\<close>, with \<open>None\<close> for \<open>-1\<close>.\<close>

fun findIndex :: "('a \<Rightarrow> bool) \<Rightarrow> 'a list \<Rightarrow> nat option" where
  "findIndex P [] = None"
| "findIndex P (x # xs) = (if P x then Some 0 else map_option Suc (findIndex P xs))"

text \<open>\<open>a || b\<close> on optional strings: the empty string is falsy.\<close>

definition str_or :: "string option \<Rightarrow> string option \<Rightarrow> string option" where
  "str_or a b = (case a of None \<Rightarrow> b | Some s \<Rightarrow> if s = [] then b else Some s)"

text \<open>Mutating the first element that satisfies a test (\<open>find\<close>, then assignment).\<close>

fun update_first :: "('a \<Rightarrow> bool) \<Rightarrow> ('a \<Rightarrow> 'a) \<Rightarrow> 'a list \<Rightarrow> 'a list" where
  "update_first P f [] = []"
| "update_first P f (x # xs) = (if P x then f x # xs else x # update_first P f xs)"

definition toUpperCase :: "string \<Rightarrow> string" where
  "toUpperCase s =
     map (\<lambda>c. if 97 \<le> (of_char c :: nat) \<and> (of_char c :: nat) \<le> 122
              then char_of ((of_char c :: nat) - 32) else c) s"

subsection \<open>Classification tables\<close>

definition exchanges :: "string list" where
  "exchanges =
    [''5Q544fKrFoe6tsEbD7S8EmxGTJYAKtTVhAW5Q5pge4j1'',
     ''9WzDXwBbmkg8ZTbNMqUxvQRAyrZzDsGYdLVL9zYtAWWM'',
     ''2ojv9BAiHUrvsm9gxDe7fJSzbNZSJcxZvf8dqmWGHG8S'']"

definition SOL :: int where
  "SOL = 1000000000"

fun determineFundFlowType_loop :: "rpc_instruction list \<Rightarrow> string" where
  "determineFundFlowType_loop [] = ''unknown''"
| "determineFundFlowType_loop (i # rest) =
    (let programId = str_or (ri_programId i) (ri_program i) in
     if programId = Some ''11111111111111111111111111111111'' then ''transfer''
     else if programId = Some ''TokenkegQfeZyiNwAJbNbGKPFXCWuBvf9Ss623VQ5DA'' then ''token_transfer''
     else if programId = Some ''9xQeWvG816bUx9EPjHmaT23yvVM2ZWbrrpZb9PusVFin'' then ''dex_trade''
     else if (case programId of None \<Rightarrow> False | Some p \<Rightarrow> str_includes p ''Stake'') then ''staking''
     else determineFundFlowType_loop rest)"

definition determineFundFlowType :: "rpc_tx \<Rightarrow> string \<Rightarrow> string" where
  "determineFundFlowType tx address = determineFundFlowType_loop (tx_instructions tx)"

definition classifyFundSource :: "string \<Rightarrow> string \<Rightarrow> int \<Rightarrow> node_type" where
  "classifyFundSource address flowType amount =
    (if address \<in> set exchanges then exchange
     else if amount > 10 * SOL then whale
     else if flowType = ''dex_trade'' then exchange
     else if flowType = ''staking'' then contract
     else if flowType = ''token_transfer'' then contract
     else if length address = 44 \<and> (str_includes address ''1111'' \<or> startsWith address ''So1'')
     then contract
     else fund_source)"

definition node_type_name :: "node_type \<Rightarrow> string" where
  "node_type_name t =
    (case t of developer \<Rightarrow> ''developer'' | fund_source \<Rightarrow> ''fund_source''
     | exchange \<Rightarrow> ''exchange'' | whale \<Rightarrow> ''whale'' | contract \<Rightarrow> ''contract''
     | unknown \<Rightarrow> ''unknown'')"

definition classifyFlowType :: "string \<Rightarrow> link_type" where
  "classifyFlowType t =
    (if t = ''transfer'' then funding
     else if t = ''dex_trade'' then exchange_link
     else if t = ''token_transfer'' then contract_interaction
     else if t = ''staking'' then contract_interaction
     else funding)"

definition assessAddressRisk :: "string \<Rightarrow> int \<Rightarrow> string \<Rightarrow> risk" where
  "assessAddressRisk address amount t =
    (if address \<in> set exchanges then low
     else if amount > 100 * SOL \<and> t = ''unknown'' then high
     else if amount > 10 * SOL then medium
     else low)"

definition getAddressLabel :: "string \<Rightarrow> label option" where
  "getAddressLabel address =
    lookup_label
     [(''5Q544fKrFoe6tsEbD7S8EmxGTJYAKtTVhAW5Q5pge4j1'', ''Binance''),
      (''9WzDXwBbmkg8ZTbNMqUxvQRAyrZzDsGYdLVL9zYtAWWM'', ''FTX''),
      (''2ojv9BAiHUrvsm9gxDe7fJSzbNZSJcxZvf8dqmWGHG8S'', ''Coinbase''),
      (''So11111111111111111111111111111111111111112'', ''Wrapped SOL''),
      (''11111111111111111111111111111111'', ''System Program''),
      (''9xQeWvG816bUx9EPjHmaT23yvVM2ZWbrrpZb9PusVFin'', ''Serum DEX''),
      (''TokenkegQfeZyiNwAJbNbGKPFXCWuBvf9Ss623VQ5DA'', ''Token Program'')]
     address"

subsection \<open>Balance-delta extraction\<close>

record flow =
  f_address :: string
  f_amount :: int
  f_flowType :: string
  f_direction :: direction

text \<open>The balance change of the account at index \<open>i\<close>: post minus pre.\<close>

definition balanceChange_at :: "rpc_tx \<Rightarrow> nat \<Rightarrow> int" where
  "balanceChange_at tx i = balance_at (postBalances tx) i - balance_at (preBalances tx) i"

text \<open>The body of the \<open>for\<close> loop of \<open>analyzeFundFlow\<close> at index \<open>i\<close>.\<close>

definition analyzeFundFlow_step ::
  "rpc_tx \<Rightarrow> nat \<Rightarrow> int \<Rightarrow> nat \<Rightarrow> flow list \<Rightarrow> flow list" where
  "analyzeFundFlow_step tx developerIndex developerBalanceChange i flows =
    (if i \<noteq> developerIndex
     then (let address = accountKeys tx ! i;
               balanceChange = balanceChange_at tx i
           in if \<bar>balanceChange\<bar> > 10000
              then flows @ [\<lparr>f_address = address, f_amount = \<bar>balanceChange\<bar>,
                              f_flowType = determineFundFlowType tx address,
                              f_direction = (if developerBalanceChange > 0 then incoming
                                             else outgoing)\<rparr>]
              else flows)
     else flows)"

definition analyzeFundFlow :: "rpc_tx \<Rightarrow> string \<Rightarrow> flow list" where
  "analyzeFundFlow tx developerAddress =
    (case findIndex (\<lambda>key. key = developerAddress) (accountKeys tx) of
       None \<Rightarrow> []
     | Some developerIndex \<Rightarrow>
         (let developerBalanceChange = balanceChange_at tx developerIndex
          in fold (analyzeFundFlow_step tx developerIndex developerBalanceChange)
               [0 ..< length (accountKeys tx)] []))"

subsection \<open>Flow aggregation\<close>

text \<open>
  The \<open>fundSources\<close> map is a JavaScript \<open>Map\<close>: an association list in insertion
  order, where a hit is mutated in place and a miss is appended.
\<close>

record source_data =
  s_amount :: int
  s_count :: nat
  s_flowType :: string
  s_lastSeen :: int
  s_direction :: direction
  s_riskLevel :: risk

record agg_state =
  fundSources :: "(string \<times> source_data) list"
  agg_received :: int
  agg_sent :: int

definition merge_flow :: "int \<Rightarrow> flow \<Rightarrow> source_data \<Rightarrow> source_data" where
  "merge_flow sigTime fl existing =
     existing\<lparr>s_amount := s_amount existing + f_amount fl,
              s_count := s_count existing + 1,
              s_lastSeen := max (s_lastSeen existing) sigTime,
              s_direction := (if s_direction existing \<noteq> f_direction fl then both
                              else s_direction existing)\<rparr>"

definition record_flow :: "int \<Rightarrow> flow \<Rightarrow> agg_state \<Rightarrow> agg_state" where
  "record_flow sigTime fl st =
    (let srcs =
       (case map_of (fundSources st) (f_address fl) of
          Some existing \<Rightarrow>
            update_first (\<lambda>e. fst e = f_address fl)
              (\<lambda>e. (fst e, merge_flow sigTime fl (snd e))) (fundSources st)
        | None \<Rightarrow>
            fundSources st @
              [(f_address fl,
                \<lparr>s_amount = f_amount fl, s_count = 1, s_flowType = f_flowType fl,
                 s_lastSeen = sigTime, s_direction = f_direction fl,
                 s_riskLevel = assessAddressRisk (f_address fl) (f_amount fl) (f_flowType fl)\<rparr>)])
     in if f_direction fl = incoming
        then st\<lparr>fundSources := srcs, agg_received := agg_received st + f_amount fl\<rparr>
        else st\<lparr>fundSources := srcs, agg_sent := agg_sent st + f_amount fl\<rparr>)"

text \<open>One round of the loop over the signatures; a missing transaction is skipped.\<close>

definition primary_step :: "upstream \<Rightarrow> string \<Rightarrow> rpc_sig \<Rightarrow> agg_state \<Rightarrow> agg_state" where
  "primary_step up developerAddress sg st =
    (case getTransaction up (signature sg) of
       None \<Rightarrow> st
     | Some tx \<Rightarrow>
         fold (record_flow (case blockTime sg of None \<Rightarrow> 0 | Some t \<Rightarrow> t))
           (analyzeFundFlow tx developerAddress) st)"

subsection \<open>Nodes and links\<close>

record emit_state =
  e_nodes :: "FundFlowNode list"
  e_links :: "FundFlowLink list"
  e_nodeIndex :: nat
  e_fundingSources :: nat

definition developer_node :: "string \<Rightarrow> FundFlowNode" where
  "developer_node developerAddress =
    \<lparr>n_id = developerAddress, n_group = 0, n_value = 0, n_label = Label ''Developer'',
     n_type = developer, n_amount = 0, n_transactionCount = 0, n_fundDirection = both,
     n_riskLevel = medium\<rparr>"

definition emit_source ::
  "string \<Rightarrow> string \<times> source_data \<Rightarrow> emit_state \<Rightarrow> emit_state" where
  "emit_source developerAddress entry st =
    (let address = fst entry; d = snd entry in
     if s_amount d > 1000000 \<and> address \<noteq> developerAddress
     then
       (let nodeType = classifyFundSource address (s_flowType d) (s_amount d);
            node = \<lparr>n_id = address, n_group = e_nodeIndex st, n_value = s_count d,
                    n_label = (case getAddressLabel address of
                                 Some l \<Rightarrow> l
                               | None \<Rightarrow> Label (toUpperCase (node_type_name nodeType))),
                    n_type = nodeType, n_amount = s_amount d,
                    n_transactionCount = s_count d, n_fundDirection = s_direction d,
                    n_riskLevel = s_riskLevel d\<rparr>;
            link = \<lparr>l_source = (if s_direction d = incoming then address else developerAddress),
                    l_target = (if s_direction d = incoming then developerAddress else address),
                    l_value = s_count d, l_amount = s_amount d,
                    l_type = classifyFlowType (s_flowType d), l_frequency = s_count d,
                    l_direction = (if s_direction d = incoming then to_developer
                                   else from_developer)\<rparr>
        in \<lparr>e_nodes = e_nodes st @ [node], e_links = e_links st @ [link],
            e_nodeIndex = e_nodeIndex st + 1,
            e_fundingSources = (if s_direction d = incoming then e_fundingSources st + 1
                                else e_fundingSources st)\<rparr>)
     else st)"

subsection \<open>Pattern detection and risk score\<close>

definition detectSuspiciousPatterns ::
  "FundFlowNode list \<Rightarrow> FundFlowLink list \<Rightarrow> int \<Rightarrow> int \<Rightarrow> string list" where
  "detectSuspiciousPatterns ns ls totalReceived totalSent =
    (let incomingNodes = filter (\<lambda>n. n_fundDirection n = incoming \<and> n_type n \<noteq> developer) ns;
         outgoingNodes = filter (\<lambda>n. n_fundDirection n = outgoing \<and> n_type n \<noteq> developer) ns;
         commonAddresses =
           filter (\<lambda>inc. list_ex (\<lambda>out. n_id out = n_id inc) outgoingNodes) incomingNodes;
         unknownSources = filter (\<lambda>n. n_type n = unknown \<and> n_amount n > 1 * SOL) ns;
         highFrequencyLinks = filter (\<lambda>l. l_frequency l > 20) ls;
         exchangeNodes = filter (\<lambda>n. n_type n = exchange) ns
     in (if length commonAddresses > 0 then [''Circular funding detected''] else [])
      @ (if (of_int totalSent :: rat) > of_int totalReceived * (8 / 10) \<and> totalSent > 5 * SOL
         then [''Potential wash trading''] else [])
      @ (if length unknownSources > 3 then [''Multiple unknown funding sources''] else [])
      @ (if length highFrequencyLinks > 2 then [''High frequency transactions''] else [])
      @ (if length exchangeNodes = 0 \<and> totalReceived > 10 * SOL
         then [''No exchange funding detected''] else []))"

definition calculateFundFlowRiskScore ::
  "FundFlowNode list \<Rightarrow> FundFlowLink list \<Rightarrow> int \<Rightarrow> int \<Rightarrow> string list \<Rightarrow> int" where
  "calculateFundFlowRiskScore ns ls totalReceived totalSent patterns =
    (let exchangeNodes = filter (\<lambda>n. n_type n = exchange) ns;
         unknownSources = filter (\<lambda>n. n_type n = unknown) ns;
         highRiskNodes = filter (\<lambda>n. n_riskLevel n = high) ns;
         whaleNodes = filter (\<lambda>n. n_type n = whale) ns;
         contractNodes = filter (\<lambda>n. n_type n = contract) ns;
         score = 30 + int (length patterns) * 15
           + (if length exchangeNodes = 0 \<and> totalReceived > 10 * SOL then 20 else 0)
           + int (length unknownSources) * 5
           + int (length highRiskNodes) * 10
           + (if length whaleNodes > 2 then 10 else 0)
           - int (length exchangeNodes) * 8
           - (if length contractNodes > 0 \<and> length contractNodes < 5 then 5 else 0)
     in max 0 (min 100 score))"

subsection \<open>Secondary connections\<close>

record sec_flow =
  sf_address :: string
  sf_amount :: int
  sf_count :: nat
  sf_flowType :: string
  sf_direction :: direction

definition sec_record :: "flow \<Rightarrow> sec_flow list \<Rightarrow> sec_flow list" where
  "sec_record fl flows =
    (if list_ex (\<lambda>f. sf_address f = f_address fl) flows
     then update_first (\<lambda>f. sf_address f = f_address fl)
            (\<lambda>existing. existing\<lparr>sf_amount := sf_amount existing + f_amount fl,
                                 sf_count := sf_count existing + 1,
                                 sf_direction := (if sf_direction existing \<noteq> f_direction fl
                                                  then both else sf_direction existing)\<rparr>)
            flows
     else flows @ [\<lparr>sf_address = f_address fl, sf_amount = f_amount fl, sf_count = 1,
                    sf_flowType = f_flowType fl, sf_direction = f_direction fl\<rparr>])"

definition sec_step :: "upstream \<Rightarrow> string \<Rightarrow> rpc_sig \<Rightarrow> sec_flow list \<Rightarrow> sec_flow list" where
  "sec_step up address sg flows =
    (case getTransaction up (signature sg) of
       None \<Rightarrow> flows
     | Some tx \<Rightarrow> fold sec_record (analyzeFundFlow tx address) flows)"

text \<open>
  The \<open>try\<close> block of \<open>getSecondaryFundFlows\<close>, where \<open>slice\<close> throws on a payload
  without that method, and the function with its own handler, which answers an error
  with the empty list.
\<close>

definition getSecondaryFundFlows_try ::
  "upstream \<Rightarrow> string \<Rightarrow> nat \<Rightarrow> js_error + sec_flow list" where
  "getSecondaryFundFlows_try up address limit =
    (case payload_items (getSignaturesForAddress up address limit) of
       None \<Rightarrow> Inl TypeError
     | Some signatures \<Rightarrow>
         Inr (take 2 (filter (\<lambda>f. sf_amount f > SOL div 10)
                        (fold (sec_step up address) (take 3 signatures) []))))"

definition getSecondaryFundFlows :: "upstream \<Rightarrow> string \<Rightarrow> nat \<Rightarrow> sec_flow list" where
  "getSecondaryFundFlows up address limit =
    (case getSecondaryFundFlows_try up address limit of
       Inl e \<Rightarrow> []
     | Inr flows \<Rightarrow> flows)"

definition add_secondary ::
  "string \<Rightarrow> sec_flow \<times> nat \<Rightarrow> FundFlowNode list \<times> FundFlowLink list
     \<Rightarrow> FundFlowNode list \<times> FundFlowLink list" where
  "add_secondary sourceId fi nl =
    (let fl = fst fi; index = snd fi; ns = fst nl; ls = snd nl in
     if \<not> list_ex (\<lambda>n. n_id n = sf_address fl) ns \<and> index < 2
     then (ns @ [\<lparr>n_id = sf_address fl, n_group = 200 + index, n_value = sf_count fl,
                   n_label = (case getAddressLabel (sf_address fl) of
                                Some l \<Rightarrow> l | None \<Rightarrow> Label ''Secondary''),
                   n_type = classifyFundSource (sf_address fl) (sf_flowType fl) (sf_amount fl),
                   n_amount = sf_amount fl, n_transactionCount = sf_count fl,
                   n_fundDirection = sf_direction fl,
                   n_riskLevel = assessAddressRisk (sf_address fl) (sf_amount fl) (sf_flowType fl)\<rparr>],
           ls @ [\<lparr>l_source = (if sf_direction fl = incoming then sf_address fl else sourceId),
                   l_target = (if sf_direction fl = incoming then sourceId else sf_address fl),
                   l_value = sf_count fl, l_amount = sf_amount fl, l_type = funding,
                   l_frequency = sf_count fl,
                   l_direction = (if sf_direction fl = incoming then to_developer
                                  else from_developer)\<rparr>])
     else nl)"

definition expand_source ::
  "upstream \<Rightarrow> FundFlowNode \<Rightarrow> FundFlowNode list \<times> FundFlowLink list
     \<Rightarrow> FundFlowNode list \<times> FundFlowLink list" where
  "expand_source up source nl =
    (let secondaryFlows = getSecondaryFundFlows up (n_id source) 5
     in fold (add_secondary (n_id source))
          (zip secondaryFlows [0 ..< length secondaryFlows]) nl)"

subsection \<open>The analysis entry point\<close>

definition minimal_result :: "string \<Rightarrow> FundFlowData" where
  "minimal_result developerAddress =
    \<lparr>nodes = [developer_node developerAddress], links = [], totalFundsReceived = 0,
     totalFundsSent = 0, fundingSources = 0, riskScore = 50,
     suspiciousPatterns = [''Unable to analyze fund flows'']\<rparr>"

text \<open>
  The graph before the secondary connections are added: the developer node, one node and
  one link per material source, and the developer node updated with the totals.
\<close>

definition primary_graph :: "string \<Rightarrow> nat \<Rightarrow> agg_state \<Rightarrow> emit_state" where
  "primary_graph developerAddress nsigs agg =
    (let st = fold (emit_source developerAddress) (fundSources agg)
                \<lparr>e_nodes = [developer_node developerAddress], e_links = [],
                 e_nodeIndex = 1, e_fundingSources = 0\<rparr>
     in st\<lparr>e_nodes :=
             update_first (\<lambda>n. n_id n = developerAddress)
               (\<lambda>n. n\<lparr>n_amount := agg_received agg + agg_sent agg,
                       n_transactionCount := nsigs,
                       n_value := e_fundingSources st\<rparr>)
               (e_nodes st)\<rparr>)"

text \<open>The loop over the first 100 signatures, starting from the empty map.\<close>

definition aggregate :: "upstream \<Rightarrow> string \<Rightarrow> rpc_sig list \<Rightarrow> agg_state" where
  "aggregate up developerAddress signatures =
     fold (primary_step up developerAddress) (take 100 signatures)
       \<lparr>fundSources = [], agg_received = 0, agg_sent = 0\<rparr>"

definition majorSources :: "FundFlowNode list \<Rightarrow> FundFlowNode list" where
  "majorSources ns = take 3 (filter (\<lambda>n. n_type n \<noteq> developer \<and> n_amount n > 1 * SOL) ns)"

text \<open>
  The \<open>try\<close> block of \<open>analyzeFundFlows\<close>.  The per-transaction and per-source handlers
  swallow their own errors; with account keys that are strings, what reaches the outer
  handler is \<open>signatures.slice\<close> on a payload without that method.
\<close>

definition analyzeFundFlows_try :: "upstream \<Rightarrow> string \<Rightarrow> js_error + FundFlowData" where
  "analyzeFundFlows_try up developerAddress =
    (case payload_items (getSignaturesForAddress up developerAddress 200) of
       None \<Rightarrow> Inl TypeError
     | Some signatures \<Rightarrow>
        (let agg = aggregate up developerAddress signatures;
             g = primary_graph developerAddress (length signatures) agg;
             patterns = detectSuspiciousPatterns (e_nodes g) (e_links g)
                          (agg_received agg) (agg_sent agg);
             risk = calculateFundFlowRiskScore (e_nodes g) (e_links g)
                      (agg_received agg) (agg_sent agg) patterns;
             nl = fold (expand_source up) (majorSources (e_nodes g)) (e_nodes g, e_links g)
         in Inr \<lparr>nodes = take 30 (fst nl), links = take 50 (snd nl),
                 totalFundsReceived = agg_received agg, totalFundsSent = agg_sent agg,
                 fundingSources = e_fundingSources g, riskScore = risk,
                 suspiciousPatterns = take 5 patterns\<rparr>))"

definition analyzeFundFlows :: "upstream \<Rightarrow> string \<Rightarrow> FundFlowData" where
  "analyzeFundFlows up developerAddress =
    (case analyzeFundFlows_try up developerAddress of
       Inl e \<Rightarrow> minimal_result developerAddress
     | Inr r \<Rightarrow> r)"

section \<open>Developer-network analysis (developer-network route)\<close>
















section \<open>Request handlers and the calls they send upstream\<close>

datatype upstream_call =
    HeliusTransactions string nat
  | RpcGetTokenAccountsByOwner string
  | RpcGetAccountInfo string
  | RpcGetSignaturesForAddress string nat
  | RpcGetTransaction "string option"

datatype 'a http_response = ErrorJson nat string | OkJson 'a

text \<open>The format check \<open>/^[1-9A-HJ-NP-Za-km-z]{32,44}$/\<close>.\<close>

definition base58_alphabet :: string where
  "base58_alphabet = ''123456789ABCDEFGHJKLMNPQRSTUVWXYZabcdefghijkmnopqrstuvwxyz''"

definition valid_address_format :: "string \<Rightarrow> bool" where
  "valid_address_format a =
     (32 \<le> length a \<and> length a \<le> 44 \<and> list_all (\<lambda>c. c \<in> set base58_alphabet) a)"

subsection \<open>The fund-flow endpoint\<close>

definition getSecondaryFundFlows_calls ::
  "upstream \<Rightarrow> string \<Rightarrow> nat \<Rightarrow> upstream_call list" where
  "getSecondaryFundFlows_calls up address limit =
    RpcGetSignaturesForAddress address limit #
    (case payload_items (getSignaturesForAddress up address limit) of
       None \<Rightarrow> []
     | Some signatures \<Rightarrow>
         map (\<lambda>sg. RpcGetTransaction (signature sg)) (take 3 signatures))"

text \<open>The requests \<open>analyzeFundFlows\<close> sends, in order.\<close>

definition analyzeFundFlows_calls :: "upstream \<Rightarrow> string \<Rightarrow> upstream_call list" where
  "analyzeFundFlows_calls up developerAddress =
    RpcGetSignaturesForAddress developerAddress 200 #
    (case payload_items (getSignaturesForAddress up developerAddress 200) of
       None \<Rightarrow> []
     | Some signatures \<Rightarrow>
         map (\<lambda>sg. RpcGetTransaction (signature sg)) (take 100 signatures)
         @ concat (map (\<lambda>source. getSecondaryFundFlows_calls up (n_id source) 5)
             (majorSources (e_nodes (primary_graph developerAddress (length signatures)
                (aggregate up developerAddress signatures))))))"

text \<open>
  The \<open>POST\<close> handler of the fund-flow endpoint: the response and the upstream requests
  sent while producing it.  The only check on the address is that it is present and
  not empty.
\<close>

definition POST_fund_flow ::
  "upstream \<Rightarrow> string option \<Rightarrow> FundFlowData http_response \<times> upstream_call list" where
  "POST_fund_flow up developerAddress =
    (case str_or developerAddress None of
       None \<Rightarrow> (ErrorJson 400 ''Developer address is required'', [])
     | Some a \<Rightarrow> (OkJson (analyzeFundFlows up a), analyzeFundFlows_calls up a))"

subsection \<open>The scoring endpoint\<close>

text \<open>
  The indexing service behind \<open>HeliusAPI\<close>: \<open>None\<close> stands for a request that fails
  (network error, error status or error reply).
\<close>

record 'acct helius =
  h_transactions :: "string \<Rightarrow> nat \<Rightarrow> helius_tx list option"
  h_tokenBalances :: "string \<Rightarrow> token_balance list option"
  h_accountInfo :: "string \<Rightarrow> 'acct option"

text \<open>
  The methods of \<open>HeliusAPI\<close> check the address themselves and throw before any request
  is sent; a thrown error is the result \<open>None\<close>.  An absent, empty or blank address
  fails the format check as well, so the three tests of the source are this one.
\<close>

definition getTransactionHistory ::
  "'acct helius \<Rightarrow> string \<Rightarrow> nat \<Rightarrow> helius_tx list option \<times> upstream_call list" where
  "getTransactionHistory h address limit =
    (if \<not> valid_address_format address then (None, [])
     else (let validLimit = min (max 1 limit) 100
           in (h_transactions h address validLimit, [HeliusTransactions address validLimit])))"

definition getTokenBalances ::
  "'acct helius \<Rightarrow> string \<Rightarrow> token_balance list option \<times> upstream_call list" where
  "getTokenBalances h address =
    (if \<not> valid_address_format address then (None, [])
     else (h_tokenBalances h address, [RpcGetTokenAccountsByOwner address]))"

definition getAccountInfo ::
  "'acct helius \<Rightarrow> string \<Rightarrow> 'acct option \<times> upstream_call list" where
  "getAccountInfo h address =
    (if \<not> valid_address_format address then (None, [])
     else (h_accountInfo h address, [RpcGetAccountInfo address]))"

record score_result =
  sr_score :: int
  sr_factors :: "factor list"
  sr_riskLevel :: risk
  sr_recommendations :: "string list"
  sr_walletAnalysis :: analysis

text \<open>
  The \<open>POST\<close> handler of the scoring endpoint, with the clock reading as an argument.
  The explanation text comes from the text-generation service and is left out of the
  response record.
\<close>

definition POST_reputability_score ::
  "'acct helius \<Rightarrow> int \<Rightarrow> string option \<Rightarrow> score_result http_response \<times> upstream_call list" where
  "POST_reputability_score h now walletAddress =
    (case str_or walletAddress None of
       None \<Rightarrow> (ErrorJson 400 ''Wallet address is required'', [])
     | Some a \<Rightarrow>
        if \<not> valid_address_format a
        then (ErrorJson 400 ''Invalid wallet address format'', [])
        else
          (let t = getTransactionHistory h a 100;
               b = getTokenBalances h a;
               i = getAccountInfo h a;
               transactions = (case fst t of None \<Rightarrow> [] | Some ts \<Rightarrow> ts);
               tokenBalances = (case fst b of None \<Rightarrow> [] | Some bs \<Rightarrow> bs);
               walletAnalysis = analyzeWalletData transactions tokenBalances (fst i) a now;
               (score, factors) = calculateReputabilityScore walletAnalysis
           in (OkJson \<lparr>sr_score = score, sr_factors = factors,
                       sr_riskLevel = riskLevel_of score,
                       sr_recommendations = generateRecommendations walletAnalysis score,
                       sr_walletAnalysis = walletAnalysis\<rparr>,
               snd t @ snd b @ snd i)))"

section \<open>Notions used in the statements\<close>

text \<open>The materiality test of the node and link emission.\<close>

definition material :: "string \<Rightarrow> string \<times> source_data \<Rightarrow> bool" where
  "material developerAddress e = (s_amount (snd e) > 1000000 \<and> fst e \<noteq> developerAddress)"

text \<open>
  The flows extracted from the transactions of a list of signatures, in processing
  order, and the distinct addresses of a list in order of first appearance.
\<close>

definition flow_stream :: "upstream \<Rightarrow> string \<Rightarrow> rpc_sig list \<Rightarrow> flow list" where
  "flow_stream up developerAddress sgs =
     concat (map (\<lambda>sg. case getTransaction up (signature sg) of
                          None \<Rightarrow> []
                        | Some tx \<Rightarrow> analyzeFundFlow tx developerAddress) sgs)"

definition first_seen :: "string list \<Rightarrow> string list" where
  "first_seen xs = fold (\<lambda>x acc. set_add acc x) xs []"

text \<open>Every link of \<open>ls\<close> starts and ends at a node of \<open>ns\<close>.\<close>

definition links_closed :: "FundFlowNode list \<Rightarrow> FundFlowLink list \<Rightarrow> bool" where
  "links_closed ns ls =
     list_all (\<lambda>l. l_source l \<in> set (map n_id ns) \<and> l_target l \<in> set (map n_id ns)) ls"

section \<open>Concrete inputs\<close>

text \<open>
  A transaction in which the developer gains 50000 lamports and the other account loses
  60000.
\<close>

definition uneven_tx :: rpc_tx where
  "uneven_tx = \<lparr>preBalances = [100000, 500000], postBalances = [150000, 440000],
               accountKeys = [''dev'', ''alice''], tx_instructions = []\<rparr>"

definition developer_typed_incoming :: FundFlowNode where
  "developer_typed_incoming =
    \<lparr>n_id = ''A'', n_group = 1, n_value = 1, n_label = Label ''x'', n_type = developer,
     n_amount = 5, n_transactionCount = 1, n_fundDirection = incoming, n_riskLevel = low\<rparr>"

definition plain_incoming :: FundFlowNode where
  "plain_incoming =
    \<lparr>n_id = ''A'', n_group = 1, n_value = 1, n_label = Label ''x'', n_type = fund_source,
     n_amount = 5, n_transactionCount = 1, n_fundDirection = incoming, n_riskLevel = low\<rparr>"

definition plain_outgoing :: FundFlowNode where
  "plain_outgoing =
    \<lparr>n_id = ''A'', n_group = 2, n_value = 1, n_label = Label ''y'', n_type = fund_source,
     n_amount = 5, n_transactionCount = 1, n_fundDirection = outgoing, n_riskLevel = low\<rparr>"

text \<open>
  One signature, one transaction with the developer and thirty other accounts: the
  developer gains 100000 lamports, the first twenty-nine others 2000000 each and the
  last one 9000000.
\<close>

definition crowded_keys :: "string list" where
  "crowded_keys =
    [''dev'',
     ''c01'', ''c02'', ''c03'', ''c04'', ''c05'', ''c06'', ''c07'', ''c08'', ''c09'', ''c10'',
     ''c11'', ''c12'', ''c13'', ''c14'', ''c15'', ''c16'', ''c17'', ''c18'', ''c19'', ''c20'',
     ''c21'', ''c22'', ''c23'', ''c24'', ''c25'', ''c26'', ''c27'', ''c28'', ''c29'', ''c30'']"

definition crowded_tx :: rpc_tx where
  "crowded_tx =
    \<lparr>preBalances = [],
     postBalances = 100000 # replicate 29 2000000 @ [9000000],
     accountKeys = crowded_keys, tx_instructions = []\<rparr>"

definition crowded_sigs :: "rpc_sig list" where
  "crowded_sigs = [\<lparr>signature = Some ''s1'', blockTime = Some 1\<rparr>]"

definition crowded_upstream :: upstream where
  "crowded_upstream =
    \<lparr>getSignaturesForAddress = (\<lambda>address limit. SigArray crowded_sigs),
     getTransaction = (\<lambda>sg. Some crowded_tx)\<rparr>"



text \<open>
  An upstream with nothing to report, and one whose signature payload is an object
  every time.
\<close>

definition quiet_upstream :: upstream where
  "quiet_upstream =
    \<lparr>getSignaturesForAddress = (\<lambda>address limit. SigArray []),
     getTransaction = (\<lambda>sg. None)\<rparr>"


section \<open>Properties of the scorer\<close>

lemma js_round_of_int: "js_round (of_int n) = n"
  by (simp add: js_round_def) linarith

text \<open>
  Claim C1: for every analysis the score returned by the scoring endpoint is an integer
  between 0 and 100, and the risk level is low exactly from 80 upwards, medium exactly
  from 60 up to 79, and high exactly below 60.
\<close>

theorem score_bounds_and_risk_thresholds:
  "0 \<le> fst (calculateReputabilityScore a) \<and> fst (calculateReputabilityScore a) \<le> 100
   \<and> (riskLevel_of (fst (calculateReputabilityScore a)) = low)
       = (80 \<le> fst (calculateReputabilityScore a))
   \<and> (riskLevel_of (fst (calculateReputabilityScore a)) = medium)
       = (60 \<le> fst (calculateReputabilityScore a) \<and> fst (calculateReputabilityScore a) < 80)
   \<and> (riskLevel_of (fst (calculateReputabilityScore a)) = high)
       = (fst (calculateReputabilityScore a) < 60)"
  by (auto simp: calculateReputabilityScore_def riskLevel_of_def)

text \<open>
  Claim C9: on the example analysis (no flagged or blacklisted interactions, 5 large
  transfers, diversity 0.4, staking ratio 0.2, age 6 months, 4 legitimate-program
  interactions, 0.5 transactions per day) the scorer returns 71, risk level medium.
\<close>

theorem example_score_71_medium:
  "fst (calculateReputabilityScore example_analysis) = 71
   \<and> riskLevel_of (fst (calculateReputabilityScore example_analysis)) = medium"
  by code_simp













section \<open>Properties of the balance-delta extractor\<close>

lemma fold_push:
  "fold (\<lambda>i acc. if P i then acc @ [g i] else acc) xs acc0 = acc0 @ map g (filter P xs)"
  by (induction xs arbitrary: acc0) auto

text \<open>
  Claim C2, as stated, fails: the amount recorded for a counterparty is not the absolute
  value of the target's balance delta.  In \<open>uneven_tx\<close> the developer's delta is 50000
  and the flow recorded for the other account carries 60000.
\<close>

theorem amount_is_not_target_delta_counterexample:
  "findIndex (\<lambda>key. key = ''dev'') (accountKeys uneven_tx) = Some 0
   \<and> \<bar>balanceChange_at uneven_tx 0\<bar> = 50000
   \<and> map f_amount (analyzeFundFlow uneven_tx ''dev'') = [60000]"
  by code_simp

text \<open>
  Claim C2, amended: when the target address appears in the transaction, the extractor
  records exactly one flow for every other account whose own balance change exceeds
  10000 lamports in absolute value, in account order; the amount of each flow is the
  absolute value of that counterparty's own balance delta, and only the direction,
  taken from the sign of the target's delta, is shared by all flows of the transaction.
\<close>

theorem analyzeFundFlow_records_counterparty_delta:
  assumes "findIndex (\<lambda>key. key = dev) (accountKeys tx) = Some di"
  shows "analyzeFundFlow tx dev =
     map (\<lambda>i. \<lparr>f_address = accountKeys tx ! i, f_amount = \<bar>balanceChange_at tx i\<bar>,
               f_flowType = determineFundFlowType tx (accountKeys tx ! i),
               f_direction = (if balanceChange_at tx di > 0 then incoming else outgoing)\<rparr>)
       (filter (\<lambda>i. i \<noteq> di \<and> \<bar>balanceChange_at tx i\<bar> > 10000)
          [0 ..< length (accountKeys tx)])"
proof -
  have step: "analyzeFundFlow_step tx di (balanceChange_at tx di) =
     (\<lambda>i acc. if i \<noteq> di \<and> \<bar>balanceChange_at tx i\<bar> > 10000
        then acc @ [\<lparr>f_address = accountKeys tx ! i, f_amount = \<bar>balanceChange_at tx i\<bar>,
               f_flowType = determineFundFlowType tx (accountKeys tx ! i),
               f_direction = (if balanceChange_at tx di > 0 then incoming else outgoing)\<rparr>]
        else acc)"
    by (intro ext) (simp add: analyzeFundFlow_step_def Let_def)
  show ?thesis
    using assms by (simp add: analyzeFundFlow_def Let_def step fold_push)
qed

theorem analyzeFundFlow_records_counterparty_delta_witness:
  "analyzeFundFlow uneven_tx ''dev'' =
     [\<lparr>f_address = ''alice'', f_amount = 60000, f_flowType = ''unknown'',
       f_direction = incoming\<rparr>]"
proof -
  have idx: "findIndex (\<lambda>key. key = ''dev'') (accountKeys uneven_tx) = Some 0"
    by (simp add: uneven_tx_def)
  have up: "[0 ..< length (accountKeys uneven_tx)] = [0, 1]"
    by (simp add: uneven_tx_def upt_rec)
  show ?thesis
    unfolding analyzeFundFlow_records_counterparty_delta [OF idx] up
    by (simp add: uneven_tx_def balanceChange_at_def balance_at_def determineFundFlowType_def)
qed

section \<open>Properties of the pattern detector\<close>

lemma circular_pattern_iff:
  "(''Circular funding detected'' \<in> set (detectSuspiciousPatterns ns ls r s)) =
   (\<exists>a \<in> set ns. \<exists>b \<in> set ns.
      n_fundDirection a = incoming \<and> n_type a \<noteq> developer
      \<and> n_fundDirection b = outgoing \<and> n_type b \<noteq> developer \<and> n_id b = n_id a)"
proof -
  let ?inc = "filter (\<lambda>n. n_fundDirection n = incoming \<and> n_type n \<noteq> developer) ns"
  let ?out = "filter (\<lambda>n. n_fundDirection n = outgoing \<and> n_type n \<noteq> developer) ns"
  let ?common = "filter (\<lambda>inc. list_ex (\<lambda>out. n_id out = n_id inc) ?out) ?inc"
  have "(''Circular funding detected'' \<in> set (detectSuspiciousPatterns ns ls r s))
        = (?common \<noteq> [])"
    by (simp add: detectSuspiciousPatterns_def Let_def)
  also have "\<dots> = (\<exists>a \<in> set ns. \<exists>b \<in> set ns.
      n_fundDirection a = incoming \<and> n_type a \<noteq> developer
      \<and> n_fundDirection b = outgoing \<and> n_type b \<noteq> developer \<and> n_id b = n_id a)"
    by (auto simp: filter_empty_conv list_ex_iff)
  finally show ?thesis .
qed

text \<open>
  Claim C5, as stated, fails: the detector leaves nodes of type developer out of both
  sides of the overlap test.  Here one address is an incoming node and an outgoing node,
  the incoming one is typed developer, and the pattern is not reported.
\<close>

theorem overlap_without_pattern_counterexample:
  "n_id developer_typed_incoming = n_id plain_outgoing
   \<and> n_fundDirection developer_typed_incoming = incoming
   \<and> n_fundDirection plain_outgoing = outgoing
   \<and> ''Circular funding detected''
        \<notin> set (detectSuspiciousPatterns [developer_typed_incoming, plain_outgoing] [] 0 0)"
  by code_simp

text \<open>
  Claim C5, amended: the detector reports the circular-funding pattern if and only if some
  address appears in the node set both as an incoming-direction node and as an
  outgoing-direction node, neither of them of type developer.
\<close>

theorem circular_funding_reported_iff:
  "(''Circular funding detected'' \<in> set (detectSuspiciousPatterns ns ls r s)) =
   (\<exists>a \<in> set ns. \<exists>b \<in> set ns.
      n_fundDirection a = incoming \<and> n_type a \<noteq> developer
      \<and> n_fundDirection b = outgoing \<and> n_type b \<noteq> developer \<and> n_id b = n_id a)"
  by (rule circular_pattern_iff)

theorem circular_funding_reported_iff_witness:
  "''Circular funding detected''
      \<in> set (detectSuspiciousPatterns [plain_incoming, plain_outgoing] [] 0 0)
   \<and> ''Circular funding detected''
      \<notin> set (detectSuspiciousPatterns [plain_incoming] [] 0 0)"
  using circular_funding_reported_iff [of "[plain_incoming, plain_outgoing]" "[]" 0 0]
        circular_funding_reported_iff [of "[plain_incoming]" "[]" 0 0]
  by (simp add: plain_incoming_def plain_outgoing_def)

section \<open>Properties of the aggregation map\<close>

lemma map_fst_update_first:
  "map fst (update_first P (\<lambda>e. (fst e, g e)) xs) = map fst xs"
  by (induction xs) auto

text \<open>Recording a flow adds its address to the keys unless it is there already.\<close>

lemma keys_record_flow:
  "map fst (fundSources (record_flow t fl st)) = set_add (map fst (fundSources st)) (f_address fl)"
proof (cases "map_of (fundSources st) (f_address fl)")
  case None
  then have "f_address fl \<notin> set (map fst (fundSources st))"
    by (simp add: map_of_eq_None_iff)
  with None show ?thesis
    by (simp add: record_flow_def Let_def set_add_def)
next
  case (Some d)
  then have "(f_address fl, d) \<in> set (fundSources st)"
    by (rule map_of_SomeD)
  then have "f_address fl \<in> set (map fst (fundSources st))"
    by force
  with Some show ?thesis
    by (simp add: record_flow_def Let_def set_add_def map_fst_update_first)
qed

lemma distinct_set_add: "distinct xs \<Longrightarrow> distinct (set_add xs x)"
  by (simp add: set_add_def)

lemma distinct_record_flow:
  "distinct (map fst (fundSources st)) \<Longrightarrow> distinct (map fst (fundSources (record_flow t fl st)))"
  by (simp add: keys_record_flow distinct_set_add)

lemma distinct_fold_record_flow:
  "distinct (map fst (fundSources st)) \<Longrightarrow>
   distinct (map fst (fundSources (fold (record_flow t) fls st)))"
  by (induction fls arbitrary: st) (simp_all add: distinct_record_flow)

lemma distinct_primary_step:
  "distinct (map fst (fundSources st)) \<Longrightarrow>
   distinct (map fst (fundSources (primary_step up dev sg st)))"
  by (simp add: primary_step_def distinct_fold_record_flow split: option.splits)

lemma distinct_fold_primary_step:
  "distinct (map fst (fundSources st)) \<Longrightarrow>
   distinct (map fst (fundSources (fold (primary_step up dev) sgs st)))"
  by (induction sgs arbitrary: st) (simp_all add: distinct_primary_step)

lemma distinct_aggregate: "distinct (map fst (fundSources (aggregate up dev sgs)))"
  by (simp add: aggregate_def distinct_fold_primary_step)

section \<open>Properties of the emitted graph\<close>

lemma ids_emit_source:
  "map n_id (e_nodes (emit_source dev e st)) =
     map n_id (e_nodes st) @ (if material dev e then [fst e] else [])"
  by (simp add: emit_source_def Let_def material_def)

lemma ids_fold_emit_source:
  "map n_id (e_nodes (fold (emit_source dev) es st)) =
     map n_id (e_nodes st) @ map fst (filter (material dev) es)"
  by (induction es arbitrary: st) (simp_all add: ids_emit_source)

lemma ids_update_first:
  "(\<And>x. n_id (f x) = n_id x) \<Longrightarrow> map n_id (update_first P f xs) = map n_id xs"
  by (induction xs) auto

lemma ids_primary_graph:
  "map n_id (e_nodes (primary_graph dev k agg)) =
     dev # map fst (filter (material dev) (fundSources agg))"
  by (simp add: primary_graph_def Let_def ids_update_first ids_fold_emit_source developer_node_def)

lemma distinct_primary_graph:
  "distinct (map fst (fundSources agg)) \<Longrightarrow> distinct (map n_id (e_nodes (primary_graph dev k agg)))"
  by (auto simp: ids_primary_graph material_def distinct_map_filter)

lemma no_circular_if_distinct:
  assumes "distinct (map n_id ns)"
  shows "''Circular funding detected'' \<notin> set (detectSuspiciousPatterns ns ls r s)"
proof
  assume "''Circular funding detected'' \<in> set (detectSuspiciousPatterns ns ls r s)"
  then obtain a b where ab: "a \<in> set ns" "b \<in> set ns" "n_fundDirection a = incoming"
      "n_fundDirection b = outgoing" "n_id b = n_id a"
    unfolding circular_pattern_iff by blast
  from assms have "inj_on n_id (set ns)" by (simp add: distinct_map)
  with ab have "a = b" by (auto dest: inj_onD)
  with ab show False by simp
qed

text \<open>
  Claim C10: whatever the upstream returns, the suspicious patterns of the fund-flow
  analysis never contain the circular-funding pattern.  The detector runs on nodes whose
  ids are the developer and the distinct keys of the aggregation map, so no id belongs to
  both an incoming and an outgoing node.
\<close>

theorem pipeline_never_reports_circular_funding:
  "''Circular funding detected'' \<notin> set (suspiciousPatterns (analyzeFundFlows up dev))"
proof (cases "payload_items (getSignaturesForAddress up dev 200)")
  case None
  then show ?thesis
    by (simp add: analyzeFundFlows_def analyzeFundFlows_try_def minimal_result_def)
next
  case (Some sgs)
  let ?agg = "aggregate up dev sgs"
  let ?g = "primary_graph dev (length sgs) ?agg"
  have "''Circular funding detected'' \<notin>
      set (detectSuspiciousPatterns (e_nodes ?g) (e_links ?g) (agg_received ?agg) (agg_sent ?agg))"
    by (intro no_circular_if_distinct distinct_primary_graph distinct_aggregate)
  then have "''Circular funding detected'' \<notin>
      set (take 5 (detectSuspiciousPatterns (e_nodes ?g) (e_links ?g)
                     (agg_received ?agg) (agg_sent ?agg)))"
    by (blast dest: in_set_takeD)
  with Some show ?thesis
    by (simp add: analyzeFundFlows_def analyzeFundFlows_try_def Let_def)
qed

section \<open>Order and truncation of the emitted graph\<close>

lemma keys_fold_record_flow:
  "map fst (fundSources (fold (record_flow t) fls st)) =
     fold (\<lambda>x acc. set_add acc x) (map f_address fls) (map fst (fundSources st))"
  by (induction fls arbitrary: st) (simp_all add: keys_record_flow)

lemma keys_primary_step:
  "map fst (fundSources (primary_step up dev sg st)) =
     fold (\<lambda>x acc. set_add acc x) (map f_address (flow_stream up dev [sg]))
       (map fst (fundSources st))"
  by (simp add: primary_step_def flow_stream_def keys_fold_record_flow split: option.splits)

lemma flow_stream_Cons:
  "flow_stream up dev (sg # sgs) = flow_stream up dev [sg] @ flow_stream up dev sgs"
  by (simp add: flow_stream_def)

lemma keys_fold_primary_step:
  "map fst (fundSources (fold (primary_step up dev) sgs st)) =
     fold (\<lambda>x acc. set_add acc x) (map f_address (flow_stream up dev sgs))
       (map fst (fundSources st))"
proof (induction sgs arbitrary: st)
  case Nil
  show ?case by (simp add: flow_stream_def)
next
  case (Cons sg sgs)
  show ?case
    by (simp add: Cons.IH keys_primary_step flow_stream_Cons [of up dev sg sgs])
qed

text \<open>The keys of the aggregation map are the flow addresses in order of first appearance.\<close>

lemma keys_aggregate:
  "map fst (fundSources (aggregate up dev sgs)) =
     first_seen (map f_address (flow_stream up dev (take 100 sgs)))"
  by (simp add: aggregate_def first_seen_def keys_fold_primary_step)

text \<open>The secondary connections are appended behind the primary nodes.\<close>

lemma add_secondary_appends: "\<exists>rest. fst (add_secondary sid fi nl) = fst nl @ rest"
  by (simp add: add_secondary_def Let_def)

lemma fold_add_secondary_appends:
  "\<exists>rest. fst (fold (add_secondary sid) fis nl) = fst nl @ rest"
proof (induction fis arbitrary: nl)
  case Nil
  show ?case by simp
next
  case (Cons fi fis)
  obtain r1 where r1: "fst (add_secondary sid fi nl) = fst nl @ r1"
    using add_secondary_appends by blast
  obtain r2 where "fst (fold (add_secondary sid) fis (add_secondary sid fi nl))
      = fst (add_secondary sid fi nl) @ r2"
    using Cons.IH by blast
  with r1 show ?case by simp
qed

lemma expand_source_appends: "\<exists>rest. fst (expand_source up src nl) = fst nl @ rest"
  by (simp add: expand_source_def Let_def fold_add_secondary_appends)

lemma fold_expand_source_appends:
  "\<exists>rest. fst (fold (expand_source up) srcs nl) = fst nl @ rest"
proof (induction srcs arbitrary: nl)
  case Nil
  show ?case by simp
next
  case (Cons src srcs)
  obtain r1 where r1: "fst (expand_source up src nl) = fst nl @ r1"
    using expand_source_appends by blast
  obtain r2 where "fst (fold (expand_source up) srcs (expand_source up src nl))
      = fst (expand_source up src nl) @ r2"
    using Cons.IH by blast
  with r1 show ?case by simp
qed

lemma result_node_ids:
  assumes "payload_items (getSignaturesForAddress up dev 200) = Some sgs"
  shows "\<exists>rest. map n_id (nodes (analyzeFundFlows up dev)) =
           take 30 (dev # map fst (filter (material dev) (fundSources (aggregate up dev sgs))) @ rest)"
proof -
  let ?agg = "aggregate up dev sgs"
  let ?g = "primary_graph dev (length sgs) ?agg"
  obtain rest where rest:
    "fst (fold (expand_source up) (majorSources (e_nodes ?g)) (e_nodes ?g, e_links ?g))
       = e_nodes ?g @ rest"
    using fold_expand_source_appends [of up "majorSources (e_nodes ?g)" "(e_nodes ?g, e_links ?g)"]
    by auto
  have "map n_id (nodes (analyzeFundFlows up dev)) = take 30 (map n_id (e_nodes ?g @ rest))"
    using assms rest
    by (simp add: analyzeFundFlows_def analyzeFundFlows_try_def Let_def take_map)
  also have "\<dots> = take 30 (dev # map fst (filter (material dev) (fundSources ?agg)) @ map n_id rest)"
    by (simp add: ids_primary_graph)
  finally show ?thesis by blast
qed

subsection \<open>The crowded transaction\<close>

lemma crowded_node_ids:
  "map n_id (nodes (analyzeFundFlows crowded_upstream ''dev'')) = take 30 crowded_keys"
  by code_simp

lemma crowded_link_sources:
  "map l_source (links (analyzeFundFlows crowded_upstream ''dev'')) = tl crowded_keys"
  by code_simp

lemma crowded_totals:
  "map (\<lambda>e. (fst e, s_amount (snd e)))
       (fundSources (aggregate crowded_upstream ''dev'' crowded_sigs))
     = zip (tl crowded_keys) (replicate 29 2000000 @ [9000000])"
  by code_simp

text \<open>
  Claim C3 on the crowded transaction: thirty material counterparties give thirty-one
  nodes and thirty links; the node list is cut to the developer and the first twenty-nine
  counterparties, all thirty links are kept, and the link of the thirtieth counterparty
  names a node that is not in the result.
\<close>

theorem truncated_graph_has_dangling_link:
  "map n_id (nodes (analyzeFundFlows crowded_upstream ''dev'')) = take 30 crowded_keys
   \<and> ''c30'' \<notin> set (map n_id (nodes (analyzeFundFlows crowded_upstream ''dev'')))
   \<and> ''c30'' \<in> set (map l_source (links (analyzeFundFlows crowded_upstream ''dev'')))"
  unfolding crowded_node_ids crowded_link_sources by code_simp

text \<open>
  Claim C4, as stated, fails: the crowded transaction aggregates counterparty \<open>c01\<close> with
  2000000 lamports and counterparty \<open>c30\<close> with 9000000; truncation keeps \<open>c01\<close> and drops
  \<open>c30\<close>.
\<close>

theorem larger_amount_dropped_counterexample:
  "(''c01'', 2000000) \<in> set (map (\<lambda>e. (fst e, s_amount (snd e)))
        (fundSources (aggregate crowded_upstream ''dev'' crowded_sigs)))
   \<and> (''c30'', 9000000) \<in> set (map (\<lambda>e. (fst e, s_amount (snd e)))
        (fundSources (aggregate crowded_upstream ''dev'' crowded_sigs)))
   \<and> ''c01'' \<in> set (map n_id (nodes (analyzeFundFlows crowded_upstream ''dev'')))
   \<and> ''c30'' \<notin> set (map n_id (nodes (analyzeFundFlows crowded_upstream ''dev'')))"
  unfolding crowded_node_ids crowded_totals by code_simp

text \<open>
  Claim C4, amended: truncation keeps the entries that were seen first, whatever their
  total amount.  The node ids of the result are the first 30 of: the developer, then the
  material counterparties in the insertion order of the aggregation map, then the
  secondary connections; and that insertion order is the order in which the addresses
  first appear in the flows of the first 100 signatures.
\<close>

theorem truncation_keeps_first_seen:
  assumes "getSignaturesForAddress up dev 200 = SigArray sgs"
  shows "(\<exists>rest. map n_id (nodes (analyzeFundFlows up dev)) =
           take 30 (dev # map fst (filter (material dev) (fundSources (aggregate up dev sgs)))
                      @ rest))
     \<and> map fst (fundSources (aggregate up dev sgs)) =
          first_seen (map f_address (flow_stream up dev (take 100 sgs)))"
proof -
  from assms have "payload_items (getSignaturesForAddress up dev 200) = Some sgs"
    by (simp add: payload_items_def)
  from result_node_ids [OF this] keys_aggregate show ?thesis
    by blast
qed

theorem truncation_keeps_first_seen_witness:
  "(\<exists>rest. map n_id (nodes (analyzeFundFlows crowded_upstream ''dev'')) =
           take 30 (''dev'' # map fst (filter (material ''dev'')
               (fundSources (aggregate crowded_upstream ''dev'' crowded_sigs))) @ rest))
     \<and> map fst (fundSources (aggregate crowded_upstream ''dev'' crowded_sigs)) =
          first_seen (map f_address
            (flow_stream crowded_upstream ''dev'' (take 100 crowded_sigs)))"
proof -
  have h: "getSignaturesForAddress crowded_upstream ''dev'' 200 = SigArray crowded_sigs"
    by (simp add: crowded_upstream_def)
  show ?thesis by (rule truncation_keeps_first_seen [OF h])
qed

section \<open>Error handling of the graph endpoints\<close>











section \<open>Address validation of the endpoints\<close>

text \<open>
  The scoring endpoint rejects an address that fails the format check without sending
  anything upstream.
\<close>

lemma scoring_endpoint_rejects_malformed_address:
  "\<not> valid_address_format a \<Longrightarrow>
   snd (POST_reputability_score h now (Some a)) = []
   \<and> fst (POST_reputability_score h now (Some a))
       \<in> {ErrorJson 400 ''Wallet address is required'',
          ErrorJson 400 ''Invalid wallet address format''}"
  by (simp add: POST_reputability_score_def str_or_def)

text \<open>
  The fund-flow endpoint asks the RPC node for the signatures of whatever non-empty
  address it is given.
\<close>

lemma fund_flow_endpoint_first_call:
  "a \<noteq> [] \<Longrightarrow>
   hd (snd (POST_fund_flow up (Some a))) = RpcGetSignaturesForAddress a 200
   \<and> fst (POST_fund_flow up (Some a)) = OkJson (analyzeFundFlows up a)"
  by (simp add: POST_fund_flow_def str_or_def analyzeFundFlows_calls_def)

text \<open>
  Claim C7 on the fund-flow endpoint: the address \<open>abc\<close> fails the format check, and
  the endpoint answers with a graph after sending a signature request for it upstream.
\<close>

theorem fund_flow_endpoint_fetches_for_malformed_address:
  "\<not> valid_address_format ''abc''
   \<and> fst (POST_fund_flow quiet_upstream (Some ''abc''))
       = OkJson (analyzeFundFlows quiet_upstream ''abc'')
   \<and> snd (POST_fund_flow quiet_upstream (Some ''abc''))
       = [RpcGetSignaturesForAddress ''abc'' 200]"
  by code_simp

section \<open>What the truncation preserves\<close>

text \<open>Node ids are unique in every result.\<close>

lemma distinct_add_secondary:
  "distinct (map n_id (fst nl)) \<Longrightarrow> distinct (map n_id (fst (add_secondary sid fi nl)))"
  by (auto simp: add_secondary_def Let_def list_ex_iff)

lemma distinct_fold_add_secondary:
  "distinct (map n_id (fst nl)) \<Longrightarrow> distinct (map n_id (fst (fold (add_secondary sid) fis nl)))"
  by (induction fis arbitrary: nl) (simp_all add: distinct_add_secondary)

lemma distinct_expand_source:
  "distinct (map n_id (fst nl)) \<Longrightarrow> distinct (map n_id (fst (expand_source up src nl)))"
  by (simp add: expand_source_def Let_def distinct_fold_add_secondary)

lemma distinct_fold_expand_source:
  "distinct (map n_id (fst nl)) \<Longrightarrow>
   distinct (map n_id (fst (fold (expand_source up) srcs nl)))"
  by (induction srcs arbitrary: nl) (simp_all add: distinct_expand_source)

lemma result_node_ids_distinct: "distinct (map n_id (nodes (analyzeFundFlows up dev)))"
proof (cases "payload_items (getSignaturesForAddress up dev 200)")
  case None
  then show ?thesis
    by (simp add: analyzeFundFlows_def analyzeFundFlows_try_def minimal_result_def)
next
  case (Some sgs)
  let ?g = "primary_graph dev (length sgs) (aggregate up dev sgs)"
  have "distinct (map n_id (fst (e_nodes ?g, e_links ?g)))"
    by (simp add: distinct_primary_graph distinct_aggregate)
  then have "distinct (map n_id
      (fst (fold (expand_source up) (majorSources (e_nodes ?g)) (e_nodes ?g, e_links ?g))))"
    by (rule distinct_fold_expand_source)
  then have "distinct (take 30 (map n_id
      (fst (fold (expand_source up) (majorSources (e_nodes ?g)) (e_nodes ?g, e_links ?g)))))"
    by (rule distinct_take)
  with Some show ?thesis
    by (simp add: analyzeFundFlows_def analyzeFundFlows_try_def Let_def take_map)
qed

text \<open>
  Links are pushed together with their nodes, so before the two lists are cut every link
  refers to nodes of the graph; a graph of at most 30 nodes is returned closed.
\<close>

lemma links_closed_mono:
  "links_closed ns ls \<Longrightarrow> n_id ` set ns \<subseteq> n_id ` set ns' \<Longrightarrow> links_closed ns' ls"
  by (auto simp: links_closed_def list_all_iff)

lemma links_closed_snoc:
  "links_closed ns ls \<Longrightarrow> l_source l \<in> n_id ` set ns \<Longrightarrow> l_target l \<in> n_id ` set ns
   \<Longrightarrow> links_closed ns (ls @ [l])"
  by (simp add: links_closed_def)

lemma closed_emit_source:
  assumes "links_closed (e_nodes st) (e_links st)" "dev \<in> n_id ` set (e_nodes st)"
  shows "links_closed (e_nodes (emit_source dev e st)) (e_links (emit_source dev e st))
         \<and> dev \<in> n_id ` set (e_nodes (emit_source dev e st))"
  using assms by (auto simp: emit_source_def Let_def links_closed_def list_all_iff)

lemma closed_fold_emit_source:
  "links_closed (e_nodes st) (e_links st) \<Longrightarrow> dev \<in> n_id ` set (e_nodes st) \<Longrightarrow>
   links_closed (e_nodes (fold (emit_source dev) es st)) (e_links (fold (emit_source dev) es st))"
proof (induction es arbitrary: st)
  case Nil
  then show ?case by simp
next
  case (Cons e es)
  from closed_emit_source [OF Cons.prems] show ?case
    by (simp add: Cons.IH)
qed

lemma idset_update_first:
  "(\<And>x. n_id (f x) = n_id x) \<Longrightarrow> n_id ` set (update_first P f xs) = n_id ` set xs"
  by (induction xs) auto

lemma closed_primary_graph:
  "links_closed (e_nodes (primary_graph dev k agg)) (e_links (primary_graph dev k agg))"
proof -
  let ?st0 = "\<lparr>e_nodes = [developer_node dev], e_links = [], e_nodeIndex = 1, e_fundingSources = 0\<rparr>"
  let ?st = "fold (emit_source dev) (fundSources agg) ?st0"
  have "links_closed (e_nodes ?st) (e_links ?st)"
    by (rule closed_fold_emit_source) (simp_all add: links_closed_def developer_node_def)
  then have "links_closed (e_nodes (primary_graph dev k agg)) (e_links ?st)"
    by (rule links_closed_mono) (simp add: primary_graph_def Let_def idset_update_first)
  then show ?thesis
    by (simp add: primary_graph_def Let_def)
qed

lemma closed_add_secondary:
  assumes "links_closed (fst nl) (snd nl)" "sid \<in> n_id ` set (fst nl)"
  shows "links_closed (fst (add_secondary sid fi nl)) (snd (add_secondary sid fi nl))
         \<and> n_id ` set (fst nl) \<subseteq> n_id ` set (fst (add_secondary sid fi nl))"
  using assms by (auto simp: add_secondary_def Let_def links_closed_def list_all_iff)

lemma closed_fold_add_secondary:
  "links_closed (fst nl) (snd nl) \<Longrightarrow> sid \<in> n_id ` set (fst nl) \<Longrightarrow>
   links_closed (fst (fold (add_secondary sid) fis nl)) (snd (fold (add_secondary sid) fis nl))
   \<and> n_id ` set (fst nl) \<subseteq> n_id ` set (fst (fold (add_secondary sid) fis nl))"
proof (induction fis arbitrary: nl)
  case Nil
  then show ?case by simp
next
  case (Cons fi fis)
  from closed_add_secondary [OF Cons.prems, of fi]
  have a: "links_closed (fst (add_secondary sid fi nl)) (snd (add_secondary sid fi nl))"
    and b: "n_id ` set (fst nl) \<subseteq> n_id ` set (fst (add_secondary sid fi nl))"
    by simp_all
  from b Cons.prems(2) have c: "sid \<in> n_id ` set (fst (add_secondary sid fi nl))"
    by blast
  from Cons.IH [OF a c] b show ?case by auto
qed

lemma closed_expand_source:
  "links_closed (fst nl) (snd nl) \<Longrightarrow> n_id src \<in> n_id ` set (fst nl) \<Longrightarrow>
   links_closed (fst (expand_source up src nl)) (snd (expand_source up src nl))
   \<and> n_id ` set (fst nl) \<subseteq> n_id ` set (fst (expand_source up src nl))"
  by (simp add: expand_source_def Let_def closed_fold_add_secondary)

lemma closed_fold_expand_source:
  "links_closed (fst nl) (snd nl) \<Longrightarrow> n_id ` set srcs \<subseteq> n_id ` set (fst nl) \<Longrightarrow>
   links_closed (fst (fold (expand_source up) srcs nl)) (snd (fold (expand_source up) srcs nl))"
proof (induction srcs arbitrary: nl)
  case Nil
  then show ?case by simp
next
  case (Cons src srcs)
  from Cons.prems(2) have m: "n_id src \<in> n_id ` set (fst nl)" by simp
  from closed_expand_source [OF Cons.prems(1) m, of up]
  have a: "links_closed (fst (expand_source up src nl)) (snd (expand_source up src nl))"
    and b: "n_id ` set (fst nl) \<subseteq> n_id ` set (fst (expand_source up src nl))"
    by simp_all
  from Cons.prems(2) have "n_id ` set srcs \<subseteq> n_id ` set (fst nl)"
    by simp
  then have c: "n_id ` set srcs \<subseteq> n_id ` set (fst (expand_source up src nl))"
    using b by (rule subset_trans)
  from Cons.IH [OF a c] show ?case by simp
qed

lemma majorSources_subset: "set (majorSources ns) \<subseteq> set ns"
  by (auto simp: majorSources_def dest: in_set_takeD)

text \<open>Before truncation every link refers to nodes of the graph.\<close>

lemma untruncated_graph_closed:
  "links_closed
     (fst (fold (expand_source up) (majorSources (e_nodes (primary_graph dev k agg)))
             (e_nodes (primary_graph dev k agg), e_links (primary_graph dev k agg))))
     (snd (fold (expand_source up) (majorSources (e_nodes (primary_graph dev k agg)))
             (e_nodes (primary_graph dev k agg), e_links (primary_graph dev k agg))))"
proof (rule closed_fold_expand_source)
  show "links_closed (fst (e_nodes (primary_graph dev k agg), e_links (primary_graph dev k agg)))
          (snd (e_nodes (primary_graph dev k agg), e_links (primary_graph dev k agg)))"
    by (simp add: closed_primary_graph)
  show "n_id ` set (majorSources (e_nodes (primary_graph dev k agg)))
          \<subseteq> n_id ` set (fst (e_nodes (primary_graph dev k agg), e_links (primary_graph dev k agg)))"
    using majorSources_subset [of "e_nodes (primary_graph dev k agg)"] by auto
qed

lemma links_closed_take: "links_closed ns ls \<Longrightarrow> links_closed ns (take n ls)"
  by (auto simp: links_closed_def list_all_iff dest: in_set_takeD)

lemma small_graph_closed:
  assumes "payload_items (getSignaturesForAddress up dev 200) = Some sgs"
    and "length (fst (fold (expand_source up)
            (majorSources (e_nodes (primary_graph dev (length sgs) (aggregate up dev sgs))))
            (e_nodes (primary_graph dev (length sgs) (aggregate up dev sgs)),
             e_links (primary_graph dev (length sgs) (aggregate up dev sgs))))) \<le> 30"
  shows "links_closed (nodes (analyzeFundFlows up dev)) (links (analyzeFundFlows up dev))"
  using assms untruncated_graph_closed [of up dev "length sgs" "aggregate up dev sgs"]
  by (simp add: analyzeFundFlows_def analyzeFundFlows_try_def Let_def links_closed_take)

section \<open>Score and risk level in the response of the scoring endpoint\<close>

lemma scoring_endpoint_score_in_range:
  "fst (POST_reputability_score h now wa) = OkJson r \<Longrightarrow>
   0 \<le> sr_score r \<and> sr_score r \<le> 100 \<and> sr_riskLevel r = riskLevel_of (sr_score r)"
  by (auto simp: POST_reputability_score_def Let_def calculateReputabilityScore_def
      split: option.splits if_splits)

end
